theory Spec2Isabelle
  imports Complex_Main
begin

section \<open>The WhatsApp dispatcher of \<open>index.js\<close>\<close>

text \<open>
  The program polls a Supabase table for pending contacts, derives two candidate
  WhatsApp numbers from each raw phone string, tries to send a picture with a caption to
  each candidate and writes the outcome back. A JavaScript string is modelled as a
  \<open>string\<close>, one \<open>char\<close> per code unit; the only characters the program inspects are
  the ASCII digits.
\<close>

subsection \<open>\<open>gerarNumerosAlternativos\<close> (lines 129-147)\<close>

text \<open>The regular expression \<open>/\D/g\<close> matches every code unit outside \<open>0\<close>..\<open>9\<close>.\<close>

definition digito :: "char \<Rightarrow> bool" where
  "digito c = (c \<in> set ''0123456789'')"

text \<open>\<open>telefone.replace(/\D/g, '')\<close>: every non-digit is deleted, the digits keep their order.\<close>

definition limpar :: "string \<Rightarrow> string" where
  "limpar telefone = filter digito telefone"

text \<open>\<open>s.startsWith(p)\<close>.\<close>

definition startsWith :: "string \<Rightarrow> string \<Rightarrow> bool" where
  "startsWith s p = (take (length p) s = p)"

definition gerarNumerosAlternativos :: "string \<Rightarrow> string list" where
  "gerarNumerosAlternativos telefone =
     (let limpo = limpar telefone in
      if length limpo < 10 then []
      else
        let ddd = take 2 limpo;
            corpo = drop 2 limpo;
            com9 = (if startsWith corpo ''9'' then corpo else ''9'' @ corpo);
            sem9 = (if startsWith corpo ''9'' then drop 1 corpo else corpo)
        in [''55'' @ ddd @ sem9, ''55'' @ ddd @ com9])"

text \<open>
  The two candidates in the words of the specification, from the digit sequence: country
  prefix \<open>55\<close>, the two-digit area code, and the subscriber digits first with a leading
  \<open>9\<close> taken off, then with that \<open>9\<close> in front.
\<close>

definition candidatos_spec :: "string \<Rightarrow> string list" where
  "candidatos_spec digitos =
     (let area = take 2 digitos;
          assinante = drop 2 digitos;
          sem = (case assinante of
                   [] \<Rightarrow> []
                 | c # cs \<Rightarrow> if c = CHR ''9'' then cs else assinante)
      in [''55'' @ area @ sem, ''55'' @ area @ CHR ''9'' # sem])"

subsection \<open>The delays (lines 150-161)\<close>

text \<open>
  \<open>Math.random()\<close> returns a binary64 number in \<open>[0, 1)\<close>. Such a number is
  \<open>significando / 2 ^ escala\<close> with a significand below \<open>2 ^ 53\<close> and a scale of at most
  \<open>1074\<close> (the smallest subnormal is \<open>2 ^ -1074\<close>).
\<close>

record double =
  significando :: nat
  escala :: nat

definition binary64 :: "double \<Rightarrow> bool" where
  "binary64 d = (significando d < 2 ^ 53 \<and> escala d \<le> 1074)"

definition valor :: "double \<Rightarrow> real" where
  "valor d = real (significando d) / 2 ^ escala d"

text \<open>The number of bits a natural number has beyond 53.\<close>

function bitsExcedentes :: "nat \<Rightarrow> nat" where
  "bitsExcedentes n = (if n < 2 ^ 53 then 0 else Suc (bitsExcedentes (n div 2)))"
  by pat_completeness auto
termination
  by (relation "measure (\<lambda>n. n)") auto

declare bitsExcedentes.simps [simp del]

text \<open>
  Rounding to 53 significant bits, to the nearest and on a tie to the even significand, as
  binary64 arithmetic rounds an exact result.
\<close>

definition arredondar53 :: "nat \<Rightarrow> nat" where
  "arredondar53 n =
     (let g = 2 ^ bitsExcedentes n; q = n div g; r = n mod g
      in if g < 2 * r \<or> (2 * r = g \<and> odd q) then (q + 1) * g else q * g)"

text \<open>
  The binary64 product \<open>d * m\<close> for a natural number \<open>m\<close> below \<open>2 ^ 53\<close>: the exact product
  of the significands, rounded; the scale stays. With a scale of at most 1074 the rounded
  number is representable, also where the product is subnormal (it is exact there).
\<close>

definition multiplicar :: "double \<Rightarrow> nat \<Rightarrow> double" where
  "multiplicar d m = \<lparr>significando = arredondar53 (significando d * m), escala = escala d\<rparr>"

text \<open>\<open>Math.floor\<close> of a non-negative number.\<close>

definition piso :: "double \<Rightarrow> nat" where
  "piso d = significando d div 2 ^ escala d"

text \<open>
  \<open>Math.floor(Math.random() * (30000 - 10000 + 1)) + 10000\<close>, as a function of the value
  drawn from the random source; the last addition is of integers far below \<open>2 ^ 53\<close> and
  exact.
\<close>

definition tempoAleatorio :: "double \<Rightarrow> int" where
  "tempoAleatorio r = int (piso (multiplicar r (30000 - 10000 + 1))) + 10000"

subsection \<open>The collaborators\<close>

text \<open>An awaited call either resolves to a value or rejects with an error message.\<close>

datatype 'a resposta = Resolve 'a | Reject string

type_synonym media = string

text \<open>
  Of a row the loop reads only \<open>id\<close> and \<open>telefone\<close>; \<open>telefone\<close> is a string, as the
  table has it.
\<close>

record contato =
  contato_id :: nat
  telefone :: string

text \<open>
  The calls the loop makes on its collaborators and the waits, in the order they happen.
  \<open>EvUpdate i d m\<close> is the write \<open>update({data_envio: d, mensagem: m}).eq('id', i)\<close>.
  Console output is not recorded.
\<close>

datatype evento =
    EvSelect
  | EvFromFilePath
  | EvReadFileSync
  | EvGetNumberId string
  | EvSendMessage string media string
  | EvUpdate nat string string
  | EvDelay int

text \<open>
  The environment answers each call as a function of everything that happened before it.
  The Supabase query resolves to \<open>{data, error}\<close>: \<open>Inl\<close> is a result with \<open>error\<close> set,
  \<open>Inr\<close> one with the rows. An update resolves to a result whose \<open>error\<close> field the loop
  never reads.
\<close>

record ambiente =
  select_pendentes :: "evento list \<Rightarrow> (string + contato list) resposta"
  fromFilePath :: "evento list \<Rightarrow> media resposta"
  readFileSync :: "evento list \<Rightarrow> string resposta"
  getNumberId :: "evento list \<Rightarrow> string \<Rightarrow> bool resposta"
  sendMessage :: "evento list \<Rightarrow> string \<Rightarrow> media \<Rightarrow> string \<Rightarrow> unit resposta"
  update_contato :: "evento list \<Rightarrow> nat \<Rightarrow> string \<Rightarrow> string \<Rightarrow> string option resposta"
  toISOString :: "evento list \<Rightarrow> string"
  random :: "evento list \<Rightarrow> double"

text \<open>How a block of statements ends: normally, or with an exception leaving it.\<close>

datatype conclusao = Normal | Lancou string

subsection \<open>\<open>loopDeEnvio\<close> (lines 42-126)\<close>

text \<open>\<open>'Erro: n\'umero inv\'alido ou n\~ao encontrado no WhatsApp'\<close> (line 117).\<close>

definition mensagemErro :: string where
  "mensagemErro =
     ''Erro: n'' @ [CHR 0xFA] @ ''mero inv'' @ [CHR 0xE1] @ ''lido ou n'' @ [CHR 0xE3]
       @ ''o encontrado no WhatsApp''"

text \<open>
  The inner \<open>for\<close> loop over the candidates (lines 79-106) with its \<open>try\<close>/\<open>catch\<close>: the
  result is the flag \<open>enviado\<close> and the extended history.
\<close>

fun tentarNumeros ::
  "ambiente \<Rightarrow> media \<Rightarrow> string \<Rightarrow> contato \<Rightarrow> string list \<Rightarrow> evento list
     \<Rightarrow> bool \<times> evento list" where
  "tentarNumeros env imagem legenda c [] h = (False, h)"
| "tentarNumeros env imagem legenda c (numero # resto) h =
     (let h1 = h @ [EvGetNumberId numero] in
      case getNumberId env h numero of
        Reject err \<Rightarrow> tentarNumeros env imagem legenda c resto h1
      | Resolve valido \<Rightarrow>
          if \<not> valido then tentarNumeros env imagem legenda c resto h1
          else
            let numeroWhatsApp = numero @ ''@c.us'';
                h2 = h1 @ [EvSendMessage numeroWhatsApp imagem legenda]
            in (case sendMessage env h1 numeroWhatsApp imagem legenda of
                  Reject err \<Rightarrow> tentarNumeros env imagem legenda c resto h2
                | Resolve u \<Rightarrow>
                    let data_envio = toISOString env h2;
                        h3 = h2 @ [EvUpdate (contato_id c) data_envio legenda]
                    in (case update_contato env h2 (contato_id c) data_envio legenda of
                          Reject err \<Rightarrow> tentarNumeros env imagem legenda c resto h3
                        | Resolve r \<Rightarrow> (True, h3))))"

text \<open>The write of lines 109-120, outside any \<open>try\<close>.\<close>

definition gravarErro :: "ambiente \<Rightarrow> contato \<Rightarrow> evento list \<Rightarrow> conclusao \<times> evento list" where
  "gravarErro env c h =
     (let data_envio = toISOString env h;
          h1 = h @ [EvUpdate (contato_id c) data_envio mensagemErro]
      in case update_contato env h (contato_id c) data_envio mensagemErro of
           Reject err \<Rightarrow> (Lancou err, h1)
         | Resolve r \<Rightarrow> (Normal, h1))"

definition delay :: "int \<Rightarrow> evento list \<Rightarrow> evento list" where
  "delay ms h = h @ [EvDelay ms]"

definition delayAleatorio :: "ambiente \<Rightarrow> evento list \<Rightarrow> evento list" where
  "delayAleatorio env h = delay (tempoAleatorio (random env h)) h"

text \<open>The body of the outer \<open>for\<close> loop, lines 73-124: one contact.\<close>

definition processarContato ::
  "ambiente \<Rightarrow> media \<Rightarrow> string \<Rightarrow> contato \<Rightarrow> evento list \<Rightarrow> conclusao \<times> evento list" where
  "processarContato env imagem legenda c h =
     (let tentativas = gerarNumerosAlternativos (telefone c);
          (enviado, h1) = tentarNumeros env imagem legenda c tentativas h
      in case (if \<not> enviado then gravarErro env c h1 else (Normal, h1)) of
           (Lancou err, h2) \<Rightarrow> (Lancou err, h2)
         | (Normal, h2) \<Rightarrow> (Normal, delayAleatorio env h2))"

fun processarContatos ::
  "ambiente \<Rightarrow> media \<Rightarrow> string \<Rightarrow> contato list \<Rightarrow> evento list \<Rightarrow> conclusao \<times> evento list" where
  "processarContatos env imagem legenda [] h = (Normal, h)"
| "processarContatos env imagem legenda (c # cs) h =
     (case processarContato env imagem legenda c h of
        (Lancou err, h1) \<Rightarrow> (Lancou err, h1)
      | (Normal, h1) \<Rightarrow> processarContatos env imagem legenda cs h1)"

text \<open>One pass through the body of \<open>while (true)\<close>, lines 45-124.\<close>

definition iteracao :: "ambiente \<Rightarrow> evento list \<Rightarrow> conclusao \<times> evento list" where
  "iteracao env h =
     (let h1 = h @ [EvSelect] in
      case select_pendentes env h of
        Reject err \<Rightarrow> (Lancou err, h1)
      | Resolve (Inl error) \<Rightarrow> (Normal, delay 10000 h1)
      | Resolve (Inr contatos) \<Rightarrow>
          if contatos = [] then (Normal, delay 30000 h1)
          else
            let h2 = h1 @ [EvFromFilePath] in
            (case fromFilePath env h1 of
               Reject err \<Rightarrow> (Lancou err, h2)
             | Resolve imagem \<Rightarrow>
                 let h3 = h2 @ [EvReadFileSync] in
                 (case readFileSync env h2 of
                    Reject err \<Rightarrow> (Lancou err, h3)
                  | Resolve legenda \<Rightarrow> processarContatos env imagem legenda contatos h3)))"

text \<open>
  The loop has no exit of its own: it runs until an exception leaves it. \<open>n\<close> bounds the
  number of passes observed; \<open>None\<close> says the loop is still running after them.
\<close>

fun loopDeEnvio :: "ambiente \<Rightarrow> nat \<Rightarrow> evento list \<Rightarrow> string option \<times> evento list" where
  "loopDeEnvio env 0 h = (None, h)"
| "loopDeEnvio env (Suc n) h =
     (case iteracao env h of
        (Lancou err, h1) \<Rightarrow> (Some err, h1)
      | (Normal, h1) \<Rightarrow> loopDeEnvio env n h1)"

subsection \<open>Reading a history\<close>

definition gravacao :: "evento \<Rightarrow> bool" where
  "gravacao e = (case e of EvUpdate i d m \<Rightarrow> True | _ \<Rightarrow> False)"

text \<open>
  Of the events \<open>evs\<close> that follow the history \<open>h\<close>, the writes that the store answered
  with a rejection.
\<close>

fun gravacoesRejeitadas :: "ambiente \<Rightarrow> evento list \<Rightarrow> evento list \<Rightarrow> evento list" where
  "gravacoesRejeitadas env h [] = []"
| "gravacoesRejeitadas env h (e # evs) =
     (case e of
        EvUpdate i d m \<Rightarrow>
          (case update_contato env h i d m of Reject err \<Rightarrow> [e] | Resolve r \<Rightarrow> [])
      | _ \<Rightarrow> [])
     @ gravacoesRejeitadas env (h @ [e]) evs"

definition chamadaEntrega :: "evento \<Rightarrow> bool" where
  "chamadaEntrega e =
     (case e of EvGetNumberId n \<Rightarrow> True | EvSendMessage n i l \<Rightarrow> True | _ \<Rightarrow> False)"

subsection \<open>Sample environments and contacts\<close>

text \<open>An environment in which only the number with the ninth digit is on WhatsApp.\<close>

definition amb_exemplo :: ambiente where
  "amb_exemplo =
     \<lparr>select_pendentes = (\<lambda>h. Resolve (Inr [])),
      fromFilePath = (\<lambda>h. Resolve ''Picanha.png''),
      readFileSync = (\<lambda>h. Resolve ''Oferta da semana''),
      getNumberId = (\<lambda>h n. Resolve (n = ''5511987654321'')),
      sendMessage = (\<lambda>h n i l. Resolve ()),
      update_contato = (\<lambda>h i d m. Resolve None),
      toISOString = (\<lambda>h. ''2024-05-01T12:00:00.000Z''),
      random = (\<lambda>h. \<lparr>significando = 2, escala = 2\<rparr>)\<rparr>"

text \<open>The same, with a query that resolves to an error.\<close>

definition amb_consulta_erro :: ambiente where
  "amb_consulta_erro = amb_exemplo\<lparr>select_pendentes := (\<lambda>h. Resolve (Inl ''timeout''))\<rparr>"

text \<open>The same, with no number on WhatsApp.\<close>

definition amb_ninguem :: ambiente where
  "amb_ninguem = amb_exemplo\<lparr>getNumberId := (\<lambda>h n. Resolve False)\<rparr>"

text \<open>Every number is on WhatsApp and every send rejects.\<close>

definition amb_envio_rejeita :: ambiente where
  "amb_envio_rejeita =
     amb_exemplo\<lparr>getNumberId := (\<lambda>h n. Resolve True),
       sendMessage := (\<lambda>h n i l. Reject ''Evaluation failed'')\<rparr>"

text \<open>A store that rejects a write only when nothing has happened before it.\<close>

definition amb_rejeita_sem_historia :: ambiente where
  "amb_rejeita_sem_historia =
     amb_exemplo\<lparr>update_contato :=
       (\<lambda>h i d m. if h = [] then Reject ''fetch failed'' else Resolve None)\<rparr>"

text \<open>A store whose first write rejects and whose later writes resolve.\<close>

definition amb_primeira_gravacao_rejeita :: ambiente where
  "amb_primeira_gravacao_rejeita =
     amb_exemplo\<lparr>update_contato :=
       (\<lambda>h i d m. if filter gravacao h = [] then Reject ''fetch failed'' else Resolve None)\<rparr>"

text \<open>That store, with every number on WhatsApp.\<close>

definition amb_todos_validos :: ambiente where
  "amb_todos_validos = amb_primeira_gravacao_rejeita\<lparr>getNumberId := (\<lambda>h n. Resolve True)\<rparr>"

text \<open>That store, with only the number without the ninth digit on WhatsApp.\<close>

definition amb_so_primeiro :: ambiente where
  "amb_so_primeiro =
     amb_primeira_gravacao_rejeita\<lparr>getNumberId := (\<lambda>h n. Resolve (n = ''551187654321''))\<rparr>"

definition contato_exemplo :: contato where
  "contato_exemplo = \<lparr>contato_id = 7, telefone = ''(11) 98765-4321''\<rparr>"

definition contato_curto :: contato where
  "contato_curto = \<lparr>contato_id = 8, telefone = ''123''\<rparr>"

section \<open>Properties\<close>

subsection \<open>The normalizer\<close>


lemma sem9_spec:
  "(if startsWith corpo ''9'' then drop 1 corpo else corpo) =
   (case corpo of [] \<Rightarrow> [] | c # cs \<Rightarrow> if c = CHR ''9'' then cs else corpo)"
  by (cases corpo) (simp_all add: startsWith_def)

lemma com9_spec:
  "(if startsWith corpo ''9'' then corpo else ''9'' @ corpo) =
   CHR ''9'' # (case corpo of [] \<Rightarrow> [] | c # cs \<Rightarrow> if c = CHR ''9'' then cs else corpo)"
  by (cases corpo) (auto simp add: startsWith_def)

lemma gerar_longo:
  "\<not> length (limpar t) < 10 \<Longrightarrow> gerarNumerosAlternativos t = candidatos_spec (limpar t)"
  unfolding gerarNumerosAlternativos_def candidatos_spec_def Let_def
  by (simp only: sem9_spec com9_spec if_False)

subsection \<open>The candidate loop\<close>


lemma gravacao_simps [simp]:
  "\<not> gravacao EvSelect" "\<not> gravacao EvFromFilePath" "\<not> gravacao EvReadFileSync"
  "\<not> gravacao (EvGetNumberId n)" "\<not> gravacao (EvSendMessage n i l)"
  "gravacao (EvUpdate k d m)" "\<not> gravacao (EvDelay ms)"
  by (simp_all add: gravacao_def)

lemma tentar_invalido:
  "getNumberId env h n \<noteq> Resolve True \<Longrightarrow>
   tentarNumeros env imagem legenda c (n # ns) h =
   tentarNumeros env imagem legenda c ns (h @ [EvGetNumberId n])"
  by (cases "getNumberId env h n") (simp_all add: Let_def)

lemma tentar_envio_rejeitado:
  "getNumberId env h n = Resolve True \<Longrightarrow>
   sendMessage env (h @ [EvGetNumberId n]) (n @ ''@c.us'') imagem legenda = Reject e \<Longrightarrow>
   tentarNumeros env imagem legenda c (n # ns) h =
   tentarNumeros env imagem legenda c ns
     (h @ [EvGetNumberId n, EvSendMessage (n @ ''@c.us'') imagem legenda])"
  by (simp add: Let_def)

lemma tentar_gravacao_rejeitada:
  "getNumberId env h n = Resolve True \<Longrightarrow>
   sendMessage env (h @ [EvGetNumberId n]) (n @ ''@c.us'') imagem legenda = Resolve u \<Longrightarrow>
   h2 = h @ [EvGetNumberId n, EvSendMessage (n @ ''@c.us'') imagem legenda] \<Longrightarrow>
   update_contato env h2 (contato_id c) (toISOString env h2) legenda = Reject e \<Longrightarrow>
   tentarNumeros env imagem legenda c (n # ns) h =
   tentarNumeros env imagem legenda c ns
     (h2 @ [EvUpdate (contato_id c) (toISOString env h2) legenda])"
  by (simp add: Let_def)

lemma tentar_sucesso:
  "getNumberId env h n = Resolve True \<Longrightarrow>
   sendMessage env (h @ [EvGetNumberId n]) (n @ ''@c.us'') imagem legenda = Resolve u \<Longrightarrow>
   h2 = h @ [EvGetNumberId n, EvSendMessage (n @ ''@c.us'') imagem legenda] \<Longrightarrow>
   update_contato env h2 (contato_id c) (toISOString env h2) legenda = Resolve r \<Longrightarrow>
   tentarNumeros env imagem legenda c (n # ns) h =
   (True, h2 @ [EvUpdate (contato_id c) (toISOString env h2) legenda])"
  by (simp add: Let_def)

lemma tentar_casos:
  fixes env imagem legenda c n ns h
  defines "h2 \<equiv> h @ [EvGetNumberId n, EvSendMessage (n @ ''@c.us'') imagem legenda]"
  defines "h3 \<equiv> h2 @ [EvUpdate (contato_id c) (toISOString env h2) legenda]"
  obtains
    (invalido) "tentarNumeros env imagem legenda c (n # ns) h =
                tentarNumeros env imagem legenda c ns (h @ [EvGetNumberId n])"
  | (envio) "tentarNumeros env imagem legenda c (n # ns) h =
             tentarNumeros env imagem legenda c ns h2"
  | (gravacao) e where "update_contato env h2 (contato_id c) (toISOString env h2) legenda = Reject e"
      "tentarNumeros env imagem legenda c (n # ns) h = tentarNumeros env imagem legenda c ns h3"
  | (sucesso) "tentarNumeros env imagem legenda c (n # ns) h = (True, h3)"
proof (cases "getNumberId env h n = Resolve True")
  case False
  then show ?thesis using invalido tentar_invalido by blast
next
  case valido: True
  show ?thesis
  proof (cases "sendMessage env (h @ [EvGetNumberId n]) (n @ ''@c.us'') imagem legenda")
    case (Reject e)
    from tentar_envio_rejeitado [OF valido Reject] show ?thesis
      using envio by (simp add: h2_def)
  next
    case (Resolve u)
    show ?thesis
    proof (cases "update_contato env h2 (contato_id c) (toISOString env h2) legenda")
      case (Reject e)
      from tentar_gravacao_rejeitada [OF valido Resolve h2_def [THEN meta_eq_to_obj_eq] Reject]
      show ?thesis using gravacao Reject by (simp add: h3_def)
    next
      case r: (Resolve r)
      from tentar_sucesso [OF valido Resolve h2_def [THEN meta_eq_to_obj_eq] r]
      show ?thesis using sucesso by (simp add: h3_def)
    qed
  qed
qed

lemma tentar_estende:
  "\<exists>evs. snd (tentarNumeros env imagem legenda c ns h) = h @ evs"
proof (induction ns arbitrary: h)
  case Nil
  show ?case by simp
next
  case (Cons n ns)
  have passo: "\<exists>evs. snd (tentarNumeros env imagem legenda c ns (h @ pre)) = h @ evs" for pre
    using Cons.IH [of "h @ pre"] by auto
  show ?case
  proof (cases rule: tentar_casos [of env imagem legenda c n ns h])
    case invalido
    then show ?thesis using passo [of "[EvGetNumberId n]"] by simp
  next
    case envio
    then show ?thesis
      using passo [of "[EvGetNumberId n, EvSendMessage (n @ ''@c.us'') imagem legenda]"] by simp
  next
    case (gravacao e)
    then show ?thesis
      using passo [of "[EvGetNumberId n, EvSendMessage (n @ ''@c.us'') imagem legenda,
        EvUpdate (contato_id c)
          (toISOString env (h @ [EvGetNumberId n, EvSendMessage (n @ ''@c.us'') imagem legenda]))
          legenda]"] by simp
  next
    case sucesso
    then show ?thesis by simp
  qed
qed

subsection \<open>One contact, one batch, the polling loop\<close>


lemma processar_enviado:
  "tentarNumeros env imagem legenda c (gerarNumerosAlternativos (telefone c)) h = (True, h1) \<Longrightarrow>
   processarContato env imagem legenda c h = (Normal, h1 @ [EvDelay (tempoAleatorio (random env h1))])"
  by (simp add: processarContato_def delayAleatorio_def delay_def)

lemma processar_nao_enviado:
  "tentarNumeros env imagem legenda c (gerarNumerosAlternativos (telefone c)) h = (False, h1) \<Longrightarrow>
   h2 = h1 @ [EvUpdate (contato_id c) (toISOString env h1) mensagemErro] \<Longrightarrow>
   processarContato env imagem legenda c h =
     (case update_contato env h1 (contato_id c) (toISOString env h1) mensagemErro of
        Reject err \<Rightarrow> (Lancou err, h2)
      | Resolve r \<Rightarrow> (Normal, h2 @ [EvDelay (tempoAleatorio (random env h2))]))"
  by (simp add: processarContato_def gravarErro_def delayAleatorio_def delay_def Let_def
      split: resposta.splits)

lemma processar_estende:
  "\<exists>evs. snd (processarContato env imagem legenda c h) = h @ evs"
proof -
  obtain b h1 where t: "tentarNumeros env imagem legenda c (gerarNumerosAlternativos (telefone c)) h = (b, h1)"
    by (cases "tentarNumeros env imagem legenda c (gerarNumerosAlternativos (telefone c)) h")
  from tentar_estende [of env imagem legenda c "gerarNumerosAlternativos (telefone c)" h] t
  obtain evs where h1: "h1 = h @ evs" by auto
  show ?thesis
  proof (cases b)
    case True
    with t processar_enviado [of env imagem legenda c h h1] h1 show ?thesis by simp
  next
    case False
    with t processar_nao_enviado [of env imagem legenda c h h1, OF _ refl] h1 show ?thesis
      by (simp split: resposta.splits)
  qed
qed

lemma processarContatos_estende:
  "\<exists>evs. snd (processarContatos env imagem legenda cs h) = h @ evs"
proof (induction cs arbitrary: h)
  case Nil
  show ?case by simp
next
  case (Cons c cs)
  obtain k h1 where p: "processarContato env imagem legenda c h = (k, h1)"
    by (cases "processarContato env imagem legenda c h")
  from processar_estende [of env imagem legenda c h] p obtain evs where h1: "h1 = h @ evs" by auto
  show ?case
  proof (cases k)
    case Normal
    from Cons.IH [of h1] obtain evs' where "snd (processarContatos env imagem legenda cs h1) = h1 @ evs'"
      by blast
    with p Normal h1 show ?thesis by simp
  next
    case (Lancou e)
    with p h1 show ?thesis by simp
  qed
qed

lemma iteracao_comeca:
  "\<exists>evs. snd (iteracao env h) = h @ EvSelect # evs"
proof -
  have lote: "\<exists>evs. snd (processarContatos env imagem legenda cs (h @ EvSelect # pre)) = h @ EvSelect # evs"
    for imagem legenda cs pre
    using processarContatos_estende [of env imagem legenda cs "h @ EvSelect # pre"] by auto
  show ?thesis
    using lote [of _ _ _ "[EvFromFilePath, EvReadFileSync]"]
    by (simp add: iteracao_def delay_def Let_def split: resposta.splits sum.splits)
qed

lemma loop_estende:
  "\<exists>evs. snd (loopDeEnvio env n h) = h @ evs"
proof (induction n arbitrary: h)
  case 0
  show ?case by simp
next
  case (Suc n)
  obtain k h1 where i: "iteracao env h = (k, h1)" by (cases "iteracao env h")
  from iteracao_comeca [of env h] i obtain evs where h1: "h1 = h @ EvSelect # evs" by auto
  show ?case
  proof (cases k)
    case Normal
    from Suc.IH [of h1] obtain evs' where "snd (loopDeEnvio env n h1) = h1 @ evs'" by blast
    with i Normal h1 show ?thesis by simp
  next
    case (Lancou e)
    with i h1 show ?thesis by simp
  qed
qed

lemma loop_continua:
  "iteracao env h = (Normal, h1) \<Longrightarrow> loopDeEnvio env (Suc n) h = loopDeEnvio env n h1"
  by simp

lemma loop_comeca:
  "\<exists>evs. snd (loopDeEnvio env (Suc n) h) = h @ EvSelect # evs"
proof -
  obtain k h1 where i: "iteracao env h = (k, h1)" by (cases "iteracao env h")
  from iteracao_comeca [of env h] i obtain evs where h1: "h1 = h @ EvSelect # evs" by auto
  show ?thesis
  proof (cases k)
    case Normal
    from loop_estende [of env n h1] obtain evs' where "snd (loopDeEnvio env n h1) = h1 @ evs'" by blast
    with i Normal h1 show ?thesis by simp
  next
    case (Lancou e)
    with i h1 show ?thesis by simp
  qed
qed

subsection \<open>The random delay in binary64 arithmetic\<close>

lemma bitsExcedentes_limite: "n < 2 ^ (53 + bitsExcedentes n)"
proof (induction n rule: bitsExcedentes.induct)
  case (1 n)
  show ?case
  proof (cases "n < 2 ^ 53")
    case True
    have "(2::nat) ^ 53 \<le> 2 ^ (53 + bitsExcedentes n)"
      by (rule power_increasing) simp_all
    with True show ?thesis by linarith
  next
    case False
    from 1 [OF False] have "n div 2 < 2 ^ (53 + bitsExcedentes (n div 2))" .
    then have "n < 2 * 2 ^ (53 + bitsExcedentes (n div 2))" by linarith
    moreover from False have "bitsExcedentes n = Suc (bitsExcedentes (n div 2))"
      by (subst bitsExcedentes.simps) simp
    ultimately show ?thesis by (simp only: add_Suc_right power_Suc)
  qed
qed

lemma bitsExcedentes_menor: "n < 2 ^ (53 + j) \<Longrightarrow> bitsExcedentes n \<le> j"
proof (induction n arbitrary: j rule: bitsExcedentes.induct)
  case (1 n)
  show ?case
  proof (cases "n < 2 ^ 53")
    case True
    then have "bitsExcedentes n = 0" by (subst bitsExcedentes.simps) simp
    then show ?thesis by simp
  next
    case False
    have "j \<noteq> 0"
    proof
      assume "j = 0"
      with "1.prems" False show False by (simp only: add_0_right)
    qed
    then obtain i where j: "j = Suc i" by (cases j) auto
    from "1.prems" j have "n < 2 * 2 ^ (53 + i)" by (simp only: add_Suc_right power_Suc)
    then have "n div 2 < 2 ^ (53 + i)" by linarith
    from "1.IH" [OF False this] have "bitsExcedentes (n div 2) \<le> i" .
    moreover from False have "bitsExcedentes n = Suc (bitsExcedentes (n div 2))"
      by (subst bitsExcedentes.simps) simp
    ultimately show ?thesis using j by simp
  qed
qed

lemma arredondar53_perto: "2 * arredondar53 n \<le> 2 * n + 2 ^ bitsExcedentes n"
proof -
  define g :: nat where "g = 2 ^ bitsExcedentes n"
  define q where "q = n div g"
  define r where "r = n mod g"
  have n: "n = q * g + r" by (simp add: q_def r_def)
  show ?thesis
  proof (cases "g < 2 * r \<or> (2 * r = g \<and> odd q)")
    case True
    then have a: "arredondar53 n = (q + 1) * g"
      by (simp add: arredondar53_def Let_def g_def q_def r_def)
    from True have "g \<le> 2 * r" by auto
    then have "2 * ((q + 1) * g) \<le> 2 * (q * g + r) + g"
      by (simp add: algebra_simps)
    with a show ?thesis unfolding g_def [symmetric] by (simp only: n)
  next
    case False
    then have a: "arredondar53 n = q * g"
      by (simp add: arredondar53_def Let_def g_def q_def r_def)
    have "q * g \<le> n" by (simp add: n)
    with a show ?thesis by simp
  qed
qed

lemma arredondar53_grade:
  "arredondar53 n = (n div 2 ^ bitsExcedentes n) * 2 ^ bitsExcedentes n
   \<or> arredondar53 n = (n div 2 ^ bitsExcedentes n + 1) * 2 ^ bitsExcedentes n"
  by (simp add: arredondar53_def Let_def)

lemma arredondar53_piso:
  assumes "bitsExcedentes n \<le> k"
  shows "arredondar53 n div 2 ^ k = n div 2 ^ k \<or> arredondar53 n div 2 ^ k = n div 2 ^ k + 1"
proof -
  define e where "e = bitsExcedentes n"
  define g :: nat where "g = 2 ^ e"
  define c :: nat where "c = 2 ^ (k - e)"
  define q where "q = n div g"
  have K: "(2::nat) ^ k = g * c"
    using assms by (simp add: g_def c_def e_def flip: power_add)
  have g0: "0 < g" and c0: "0 < c" by (simp_all add: g_def c_def)
  have nK: "n div 2 ^ k = q div c" by (simp add: K div_mult2_eq q_def)
  have suc: "(q + 1) div c = q div c \<or> (q + 1) div c = q div c + 1"
  proof -
    have "q div c \<le> (q + 1) div c" by (rule div_le_mono) simp
    moreover have "(q + 1) div c \<le> q div c + 1"
    proof -
      have "q + 1 \<le> q + c" using c0 by simp
      then have "(q + 1) div c \<le> (q + c) div c" by (rule div_le_mono)
      also have "\<dots> = q div c + 1" using c0 by simp
      finally show ?thesis .
    qed
    ultimately show ?thesis by linarith
  qed
  from arredondar53_grade [of n] have "arredondar53 n = q * g \<or> arredondar53 n = (q + 1) * g"
    by (simp add: g_def e_def q_def)
  then show ?thesis
  proof
    assume "arredondar53 n = q * g"
    then have "arredondar53 n div 2 ^ k = q div c" using g0 by (simp add: K div_mult2_eq)
    with nK show ?thesis by simp
  next
    assume "arredondar53 n = (q + 1) * g"
    then have "arredondar53 n div 2 ^ k = (q + 1) div c"
      using g0 by (simp add: K div_mult2_eq del: One_nat_def)
    with nK suc show ?thesis by auto
  qed
qed

lemma produto_abaixo:
  assumes s53: "s < 2 ^ 53" and sk: "s < 2 ^ k"
  shows "arredondar53 (s * 20001) < 20001 * 2 ^ k"
proof -
  let ?n = "s * 20001"
  from s53 have "?n < 2 ^ (53 + 15)" by simp
  then have "bitsExcedentes ?n \<le> 15" by (rule bitsExcedentes_menor)
  then have "(2::nat) ^ bitsExcedentes ?n \<le> 2 ^ 15" by (rule power_increasing) simp
  then have g: "(2::nat) ^ bitsExcedentes ?n \<le> 32768" by simp
  from sk have "s + 1 \<le> 2 ^ k" by simp
  then have "(s + 1) * 20001 \<le> 2 ^ k * 20001" by (rule mult_le_mono1)
  then have t: "?n + 20001 \<le> 20001 * 2 ^ k" by (simp add: algebra_simps)
  from arredondar53_perto [of ?n] g have "2 * arredondar53 ?n \<le> 2 * ?n + 32768" by linarith
  with t show ?thesis by linarith
qed

lemma produto_bits:
  assumes "s < 2 ^ k"
  shows "bitsExcedentes (s * 20001) \<le> k"
proof (rule bitsExcedentes_menor)
  have "s * 20001 < 2 ^ k * 2 ^ 53"
  proof (cases "s = 0")
    case True
    then show ?thesis by simp
  next
    case False
    have "s * 20001 < s * 2 ^ 53" using False by simp
    also have "\<dots> \<le> 2 ^ k * 2 ^ 53" using assms by simp
    finally show ?thesis .
  qed
  then show "s * 20001 < 2 ^ (53 + k)" by (simp add: power_add mult.commute)
qed

lemma valor_unidade: "valor d < 1 \<longleftrightarrow> significando d < 2 ^ escala d"
proof -
  have "valor d < 1 \<longleftrightarrow> real (significando d) < 2 ^ escala d"
    by (simp add: valor_def)
  also have "\<dots> \<longleftrightarrow> real (significando d) < real (2 ^ escala d)" by simp
  also have "\<dots> \<longleftrightarrow> significando d < 2 ^ escala d" by (rule of_nat_less_iff)
  finally show ?thesis .
qed

lemma piso_exato:
  "\<lfloor>valor d * 20001\<rfloor> = int (significando d * 20001 div 2 ^ escala d)"
proof -
  have "valor d * 20001 = real (significando d * 20001) / real (2 ^ escala d)"
    by (simp add: valor_def)
  then show ?thesis by (simp only: floor_divide_of_nat_eq)
qed

lemma tempoAleatorio_limites:
  assumes "binary64 r" and "valor r < 1"
  shows "10000 \<le> tempoAleatorio r" and "tempoAleatorio r \<le> 30000"
    and "tempoAleatorio r = \<lfloor>valor r * (30000 - 10000 + 1)\<rfloor> + 10000
       \<or> tempoAleatorio r = \<lfloor>valor r * (30000 - 10000 + 1)\<rfloor> + 10001"
proof -
  let ?s = "significando r" and ?k = "escala r"
  from assms have s53: "?s < 2 ^ 53" and sk: "?s < 2 ^ ?k"
    by (simp_all add: binary64_def valor_unidade)
  have t: "tempoAleatorio r = int (arredondar53 (?s * 20001) div 2 ^ ?k) + 10000"
    by (simp add: tempoAleatorio_def piso_def multiplicar_def)
  show "10000 \<le> tempoAleatorio r" using t by simp
  from produto_abaixo [OF s53 sk] have "arredondar53 (?s * 20001) div 2 ^ ?k < 20001"
    by (simp add: less_mult_imp_div_less)
  with t show "tempoAleatorio r \<le> 30000" by simp
  from arredondar53_piso [OF produto_bits [OF sk]] piso_exato [of r] t
  show "tempoAleatorio r = \<lfloor>valor r * (30000 - 10000 + 1)\<rfloor> + 10000
       \<or> tempoAleatorio r = \<lfloor>valor r * (30000 - 10000 + 1)\<rfloor> + 10001"
    by auto
qed

lemma tempo_meio: "tempoAleatorio \<lparr>significando = 2, escala = 2\<rparr> = 20000"
  by (simp add: tempoAleatorio_def piso_def multiplicar_def arredondar53_def Let_def
      bitsExcedentes.simps)

lemma tempo_arredonda:
  "tempoAleatorio \<lparr>significando = 4503149289924631, escala = 52\<rparr> = 29999"
  by (simp add: tempoAleatorio_def piso_def multiplicar_def arredondar53_def Let_def
      bitsExcedentes.simps)

lemma tempo_maximo:
  "tempoAleatorio \<lparr>significando = 9007199254740991, escala = 53\<rparr> = 30000"
  by (simp add: tempoAleatorio_def piso_def multiplicar_def arredondar53_def Let_def
      bitsExcedentes.simps)

subsection \<open>Evaluation rules\<close>

lemmas amb_defs = amb_exemplo_def amb_consulta_erro_def amb_ninguem_def amb_envio_rejeita_def
  amb_rejeita_sem_historia_def
  amb_primeira_gravacao_rejeita_def amb_todos_validos_def amb_so_primeiro_def

lemmas norm_defs = gerarNumerosAlternativos_def limpar_def digito_def startsWith_def

lemmas passo_defs = processarContato_def gravarErro_def delayAleatorio_def delay_def
  tempo_meio Let_def

lemma chamadaEntrega_simps [simp]:
  "\<not> chamadaEntrega EvSelect" "\<not> chamadaEntrega EvFromFilePath"
  "\<not> chamadaEntrega EvReadFileSync" "chamadaEntrega (EvGetNumberId n)"
  "chamadaEntrega (EvSendMessage n i l)" "\<not> chamadaEntrega (EvUpdate k d m)"
  "\<not> chamadaEntrega (EvDelay ms)"
  by (simp_all add: chamadaEntrega_def)

lemma gerar_curto: "length (limpar t) < 10 \<Longrightarrow> gerarNumerosAlternativos t = []"
  by (simp add: gerarNumerosAlternativos_def)

lemma iteracao_erro:
  "select_pendentes env h = Resolve (Inl erro) \<Longrightarrow>
   iteracao env h = (Normal, h @ [EvSelect, EvDelay 10000])"
  by (simp add: iteracao_def delay_def)

lemma iteracao_vazio:
  "select_pendentes env h = Resolve (Inr []) \<Longrightarrow>
   iteracao env h = (Normal, h @ [EvSelect, EvDelay 30000])"
  by (simp add: iteracao_def delay_def)

lemma loop_apos_espera:
  assumes "iteracao env h = (Normal, h @ [EvSelect, EvDelay ms])"
  shows "\<exists>evs. snd (loopDeEnvio env (Suc (Suc n)) h) = h @ [EvSelect, EvDelay ms, EvSelect] @ evs"
proof -
  from loop_comeca [of env n "h @ [EvSelect, EvDelay ms]"] obtain evs where
    "snd (loopDeEnvio env (Suc n) (h @ [EvSelect, EvDelay ms])) =
       (h @ [EvSelect, EvDelay ms]) @ EvSelect # evs" by blast
  with loop_continua [OF assms, of "Suc n"] show ?thesis by simp
qed


lemma processar_termina_em_espera:
  assumes p: "processarContato env imagem legenda c h = (Normal, h')"
  shows "\<exists>h2. h' = h2 @ [EvDelay (tempoAleatorio (random env h2))]"
proof -
  obtain b h1 where t:
    "tentarNumeros env imagem legenda c (gerarNumerosAlternativos (telefone c)) h = (b, h1)"
    by (cases "tentarNumeros env imagem legenda c (gerarNumerosAlternativos (telefone c)) h")
  show ?thesis
  proof (cases b)
    case True
    with t p processar_enviado [of env imagem legenda c h h1] show ?thesis by auto
  next
    case False
    with t p processar_nao_enviado [of env imagem legenda c h h1, OF _ refl] show ?thesis
      by (cases "update_contato env h1 (contato_id c) (toISOString env h1) mensagemErro")
        auto
  qed
qed

subsection \<open>Writes and rejections\<close>

lemma gravacoesRejeitadas_append:
  "gravacoesRejeitadas env h (xs @ ys) =
   gravacoesRejeitadas env h xs @ gravacoesRejeitadas env (h @ xs) ys"
  by (induction xs arbitrary: h) simp_all

lemma tentar_passos:
  fixes env imagem legenda c n ns h
  defines "h2 \<equiv> h @ [EvGetNumberId n, EvSendMessage (n @ ''@c.us'') imagem legenda]"
  defines "h3 \<equiv> h2 @ [EvUpdate (contato_id c) (toISOString env h2) legenda]"
  obtains
    (invalido) "getNumberId env h n \<noteq> Resolve True"
      "tentarNumeros env imagem legenda c (n # ns) h =
       tentarNumeros env imagem legenda c ns (h @ [EvGetNumberId n])"
  | (envio) e where "getNumberId env h n = Resolve True"
      "sendMessage env (h @ [EvGetNumberId n]) (n @ ''@c.us'') imagem legenda = Reject e"
      "tentarNumeros env imagem legenda c (n # ns) h = tentarNumeros env imagem legenda c ns h2"
  | (gravacao) u e where "getNumberId env h n = Resolve True"
      "sendMessage env (h @ [EvGetNumberId n]) (n @ ''@c.us'') imagem legenda = Resolve u"
      "update_contato env h2 (contato_id c) (toISOString env h2) legenda = Reject e"
      "tentarNumeros env imagem legenda c (n # ns) h = tentarNumeros env imagem legenda c ns h3"
  | (sucesso) u r where "getNumberId env h n = Resolve True"
      "sendMessage env (h @ [EvGetNumberId n]) (n @ ''@c.us'') imagem legenda = Resolve u"
      "update_contato env h2 (contato_id c) (toISOString env h2) legenda = Resolve r"
      "tentarNumeros env imagem legenda c (n # ns) h = (True, h3)"
proof (cases "getNumberId env h n = Resolve True")
  case False
  then show ?thesis using invalido tentar_invalido by blast
next
  case valido: True
  show ?thesis
  proof (cases "sendMessage env (h @ [EvGetNumberId n]) (n @ ''@c.us'') imagem legenda")
    case (Reject e)
    from tentar_envio_rejeitado [OF valido Reject] show ?thesis
      using envio [OF valido Reject] by (simp add: h2_def)
  next
    case (Resolve u)
    show ?thesis
    proof (cases "update_contato env h2 (contato_id c) (toISOString env h2) legenda")
      case (Reject e)
      from tentar_gravacao_rejeitada [OF valido Resolve h2_def [THEN meta_eq_to_obj_eq] Reject]
      show ?thesis using gravacao [OF valido Resolve Reject] by (simp add: h3_def)
    next
      case r: (Resolve r)
      from tentar_sucesso [OF valido Resolve h2_def [THEN meta_eq_to_obj_eq] r]
      show ?thesis using sucesso [OF valido Resolve r] by (simp add: h3_def)
    qed
  qed
qed

lemma tentar_gravacoes:
  "\<exists>evs. snd (tentarNumeros env imagem legenda c ns h) = h @ evs
     \<and> length (filter gravacao evs) =
         length (gravacoesRejeitadas env h evs)
         + (if fst (tentarNumeros env imagem legenda c ns h) then 1 else 0)"
proof (induction ns arbitrary: h)
  case Nil
  show ?case by simp
next
  case (Cons n ns)
  have passo: "\<exists>evs. snd (tentarNumeros env imagem legenda c (n # ns) h) = h @ evs
     \<and> length (filter gravacao evs) =
         length (gravacoesRejeitadas env h evs)
         + (if fst (tentarNumeros env imagem legenda c (n # ns) h) then 1 else 0)"
    if t: "tentarNumeros env imagem legenda c (n # ns) h =
           tentarNumeros env imagem legenda c ns (h @ pre)"
      and p: "length (filter gravacao pre) = length (gravacoesRejeitadas env h pre)" for pre
  proof -
    from Cons.IH [of "h @ pre"] obtain evs where
      s: "snd (tentarNumeros env imagem legenda c ns (h @ pre)) = (h @ pre) @ evs"
      and g: "length (filter gravacao evs) =
         length (gravacoesRejeitadas env (h @ pre) evs)
         + (if fst (tentarNumeros env imagem legenda c ns (h @ pre)) then 1 else 0)" by blast
    from s t have "snd (tentarNumeros env imagem legenda c (n # ns) h) = h @ (pre @ evs)"
      by simp
    moreover from g p t have "length (filter gravacao (pre @ evs)) =
         length (gravacoesRejeitadas env h (pre @ evs))
         + (if fst (tentarNumeros env imagem legenda c (n # ns) h) then 1 else 0)"
      by (simp add: gravacoesRejeitadas_append)
    ultimately show ?thesis by blast
  qed
  let ?g = "EvGetNumberId n" and ?s = "EvSendMessage (n @ ''@c.us'') imagem legenda"
  let ?u = "EvUpdate (contato_id c) (toISOString env (h @ [?g, ?s])) legenda"
  show ?case
  proof (cases rule: tentar_passos [of env h n imagem legenda c ns])
    case invalido
    from passo [of "[?g]"] invalido(2) show ?thesis by simp
  next
    case (envio e)
    from passo [of "[?g, ?s]"] envio(3) show ?thesis by simp
  next
    case (gravacao u e)
    from passo [of "[?g, ?s, ?u]"] gravacao(3,4) show ?thesis by simp
  next
    case (sucesso u r)
    have "snd (tentarNumeros env imagem legenda c (n # ns) h) = h @ [?g, ?s, ?u]"
      using sucesso(4) by simp
    moreover have "length (filter gravacao [?g, ?s, ?u]) =
         length (gravacoesRejeitadas env h [?g, ?s, ?u])
         + (if fst (tentarNumeros env imagem legenda c (n # ns) h) then 1 else 0)"
      using sucesso(3,4) by simp
    ultimately show ?thesis by blast
  qed
qed

lemma processar_gravacoes:
  "\<exists>evs. snd (processarContato env imagem legenda c h) = h @ evs
     \<and> (gravacoesRejeitadas env h evs = [] \<longrightarrow>
          fst (processarContato env imagem legenda c h) = Normal
          \<and> length (filter gravacao evs) = 1)
     \<and> (\<forall>e. fst (processarContato env imagem legenda c h) = Lancou e \<longrightarrow>
          (\<exists>h1. h @ evs = h1 @ [EvUpdate (contato_id c) (toISOString env h1) mensagemErro]
             \<and> update_contato env h1 (contato_id c) (toISOString env h1) mensagemErro
                 = Reject e))"
proof -
  let ?ns = "gerarNumerosAlternativos (telefone c)"
  obtain b h1 where t: "tentarNumeros env imagem legenda c ?ns h = (b, h1)"
    by (cases "tentarNumeros env imagem legenda c ?ns h")
  from tentar_gravacoes [of env imagem legenda c ?ns h] t obtain evs where
    h1: "h1 = h @ evs"
    and g: "length (filter gravacao evs) =
              length (gravacoesRejeitadas env h evs) + (if b then 1 else 0)"
    by auto
  let ?w = "EvUpdate (contato_id c) (toISOString env h1) mensagemErro"
  show ?thesis
  proof (cases b)
    case True
    let ?d = "EvDelay (tempoAleatorio (random env h1))"
    from True t processar_enviado [of env imagem legenda c h h1]
    have p: "processarContato env imagem legenda c h = (Normal, h @ (evs @ [?d]))"
      by (simp add: h1)
    have "gravacoesRejeitadas env h (evs @ [?d]) = [] \<longrightarrow>
            length (filter gravacao (evs @ [?d])) = 1"
      using g True by (simp add: gravacoesRejeitadas_append)
    with p show ?thesis by (intro exI [of _ "evs @ [?d]"]) simp
  next
    case False
    note nao = processar_nao_enviado [of env imagem legenda c h h1, OF _ refl]
    show ?thesis
    proof (cases "update_contato env h1 (contato_id c) (toISOString env h1) mensagemErro")
      case (Resolve r)
      let ?d = "EvDelay (tempoAleatorio (random env (h1 @ [?w])))"
      from False t nao Resolve
      have p: "processarContato env imagem legenda c h = (Normal, h @ (evs @ [?w, ?d]))"
        by (simp add: h1)
      have "gravacoesRejeitadas env h (evs @ [?w, ?d]) = [] \<longrightarrow>
            length (filter gravacao (evs @ [?w, ?d])) = 1"
        using g False by (simp add: gravacoesRejeitadas_append h1)
      with p show ?thesis by (intro exI [of _ "evs @ [?w, ?d]"]) simp
    next
      case (Reject e)
      from False t nao Reject
      have p: "processarContato env imagem legenda c h = (Lancou e, h @ (evs @ [?w]))"
        by (simp add: h1)
      have r: "gravacoesRejeitadas env h (evs @ [?w]) \<noteq> []"
        using Reject by (simp add: gravacoesRejeitadas_append h1)
      have "h @ (evs @ [?w]) = h1 @ [?w]" by (simp add: h1)
      with p r Reject show ?thesis by (intro exI [of _ "evs @ [?w]"]) auto
    qed
  qed
qed

lemma processarContatos_gravacoes:
  "\<exists>evs. snd (processarContatos env imagem legenda cs h) = h @ evs
     \<and> (gravacoesRejeitadas env h evs = [] \<longrightarrow>
          fst (processarContatos env imagem legenda cs h) = Normal
          \<and> length (filter gravacao evs) = length cs)"
proof (induction cs arbitrary: h)
  case Nil
  show ?case by simp
next
  case (Cons c cs)
  from processar_gravacoes [of env imagem legenda c h] obtain e1 where
    s1: "snd (processarContato env imagem legenda c h) = h @ e1"
    and n1: "gravacoesRejeitadas env h e1 = [] \<Longrightarrow>
          fst (processarContato env imagem legenda c h) = Normal
          \<and> length (filter gravacao e1) = 1" by blast
  show ?case
  proof (cases "fst (processarContato env imagem legenda c h)")
    case Normal
    with s1 have p: "processarContato env imagem legenda c h = (Normal, h @ e1)"
      by (cases "processarContato env imagem legenda c h") simp
    from Cons.IH [of "h @ e1"] obtain e2 where
      s2: "snd (processarContatos env imagem legenda cs (h @ e1)) = (h @ e1) @ e2"
      and n2: "gravacoesRejeitadas env (h @ e1) e2 = [] \<Longrightarrow>
          fst (processarContatos env imagem legenda cs (h @ e1)) = Normal
          \<and> length (filter gravacao e2) = length cs" by blast
    have "snd (processarContatos env imagem legenda (c # cs) h) = h @ (e1 @ e2)"
      using p s2 by simp
    moreover have "gravacoesRejeitadas env h (e1 @ e2) = [] \<longrightarrow>
          fst (processarContatos env imagem legenda (c # cs) h) = Normal
          \<and> length (filter gravacao (e1 @ e2)) = length (c # cs)"
      using p n1 n2 by (simp add: gravacoesRejeitadas_append)
    ultimately show ?thesis by blast
  next
    case (Lancou e)
    with s1 have p: "processarContato env imagem legenda c h = (Lancou e, h @ e1)"
      by (cases "processarContato env imagem legenda c h") simp
    from n1 Lancou have "gravacoesRejeitadas env h e1 \<noteq> []" by auto
    with p show ?thesis by (intro exI [of _ e1]) simp
  qed
qed



section \<open>The claims\<close>

text \<open>
  Claim C1. Whatever \<open>getNumberId\<close> and \<open>sendMessage\<close> answer or throw, the processing of
  a contact in which the store rejects no write ends normally, with exactly one write among
  the events it adds; and a batch in which the store rejects no write is processed to its
  end, with one write for each contact. The Supabase client resolves every query and
  reports a failure in the \<open>error\<close> field of the result (line 53 reads it), so it rejects
  no write. The only exception that can leave the step at all is a rejection of the write
  of lines 113-119.
\<close>

theorem processarContato_uma_gravacao_sem_rejeicao:
  "(\<exists>evs. snd (processarContato env imagem legenda c h) = h @ evs
      \<and> (gravacoesRejeitadas env h evs = [] \<longrightarrow>
           fst (processarContato env imagem legenda c h) = Normal
           \<and> length (filter gravacao evs) = 1)
      \<and> (\<forall>e. fst (processarContato env imagem legenda c h) = Lancou e \<longrightarrow>
           (\<exists>h1. h @ evs = h1 @ [EvUpdate (contato_id c) (toISOString env h1) mensagemErro]
              \<and> update_contato env h1 (contato_id c) (toISOString env h1) mensagemErro
                  = Reject e)))
   \<and> (\<exists>evs. snd (processarContatos env imagem legenda cs h) = h @ evs
      \<and> (gravacoesRejeitadas env h evs = [] \<longrightarrow>
           fst (processarContatos env imagem legenda cs h) = Normal
           \<and> length (filter gravacao evs) = length cs))"
  using processar_gravacoes [of env imagem legenda c h]
    processarContatos_gravacoes [of env imagem legenda cs h]
  by (rule conjI)

theorem processarContato_uma_gravacao_sem_rejeicao_witness:
  "snd (processarContato amb_rejeita_sem_historia ''Picanha.png'' ''Oferta da semana''
          contato_exemplo []) =
     [EvGetNumberId ''551187654321'', EvGetNumberId ''5511987654321'',
      EvSendMessage ''5511987654321@c.us'' ''Picanha.png'' ''Oferta da semana'',
      EvUpdate 7 ''2024-05-01T12:00:00.000Z'' ''Oferta da semana'',
      EvDelay 20000]
   \<and> gravacoesRejeitadas amb_rejeita_sem_historia []
       [EvGetNumberId ''551187654321'', EvGetNumberId ''5511987654321'',
        EvSendMessage ''5511987654321@c.us'' ''Picanha.png'' ''Oferta da semana'',
        EvUpdate 7 ''2024-05-01T12:00:00.000Z'' ''Oferta da semana'',
        EvDelay 20000] = []
   \<and> fst (processarContato amb_rejeita_sem_historia ''Picanha.png'' ''Oferta da semana''
          contato_exemplo []) = Normal
   \<and> snd (processarContatos amb_exemplo ''Picanha.png'' ''Oferta da semana''
          [contato_exemplo, contato_curto] []) =
     [EvGetNumberId ''551187654321'', EvGetNumberId ''5511987654321'',
      EvSendMessage ''5511987654321@c.us'' ''Picanha.png'' ''Oferta da semana'',
      EvUpdate 7 ''2024-05-01T12:00:00.000Z'' ''Oferta da semana'',
      EvDelay 20000,
      EvUpdate 8 ''2024-05-01T12:00:00.000Z'' mensagemErro,
      EvDelay 20000]
   \<and> gravacoesRejeitadas amb_exemplo []
       [EvGetNumberId ''551187654321'', EvGetNumberId ''5511987654321'',
        EvSendMessage ''5511987654321@c.us'' ''Picanha.png'' ''Oferta da semana'',
        EvUpdate 7 ''2024-05-01T12:00:00.000Z'' ''Oferta da semana'',
        EvDelay 20000,
        EvUpdate 8 ''2024-05-01T12:00:00.000Z'' mensagemErro,
        EvDelay 20000] = []
   \<and> fst (processarContatos amb_exemplo ''Picanha.png'' ''Oferta da semana''
          [contato_exemplo, contato_curto] []) = Normal
   \<and> fst (processarContato amb_rejeita_sem_historia ''Picanha.png'' ''Oferta da semana''
          contato_curto []) = Lancou ''fetch failed''
   \<and> (\<exists>h1. snd (processarContato amb_rejeita_sem_historia ''Picanha.png''
                   ''Oferta da semana'' contato_curto []) =
          h1 @ [EvUpdate (contato_id contato_curto) (toISOString amb_rejeita_sem_historia h1)
                  mensagemErro]
        \<and> update_contato amb_rejeita_sem_historia h1 (contato_id contato_curto)
            (toISOString amb_rejeita_sem_historia h1) mensagemErro = Reject ''fetch failed'')"
proof -
  let ?t1 = "[EvGetNumberId ''551187654321'', EvGetNumberId ''5511987654321'',
      EvSendMessage ''5511987654321@c.us'' ''Picanha.png'' ''Oferta da semana'',
      EvUpdate 7 ''2024-05-01T12:00:00.000Z'' ''Oferta da semana'',
      EvDelay 20000]"
  let ?t2 = "?t1 @ [EvUpdate 8 ''2024-05-01T12:00:00.000Z'' mensagemErro, EvDelay 20000]"
  have s1: "snd (processarContato amb_rejeita_sem_historia ''Picanha.png'' ''Oferta da semana''
          contato_exemplo []) = ?t1"
    by (simp add: amb_defs norm_defs passo_defs contato_exemplo_def)
  have r1: "gravacoesRejeitadas amb_rejeita_sem_historia [] ?t1 = []"
    by (simp add: amb_defs)
  have s2: "snd (processarContatos amb_exemplo ''Picanha.png'' ''Oferta da semana''
          [contato_exemplo, contato_curto] []) = ?t2"
    by (simp add: amb_defs norm_defs passo_defs contato_exemplo_def contato_curto_def)
  have r2: "gravacoesRejeitadas amb_exemplo [] ?t2 = []"
    by (simp add: amb_defs)
  from processarContato_uma_gravacao_sem_rejeicao [of amb_rejeita_sem_historia "''Picanha.png''" "''Oferta da semana''"
      contato_exemplo "[]"] s1 r1
  have n1: "fst (processarContato amb_rejeita_sem_historia ''Picanha.png'' ''Oferta da semana''
          contato_exemplo []) = Normal"
    by auto
  from processarContato_uma_gravacao_sem_rejeicao [of amb_exemplo "''Picanha.png''" "''Oferta da semana''" contato_exemplo "[]"
      "[contato_exemplo, contato_curto]"] s2 r2
  have n2: "fst (processarContatos amb_exemplo ''Picanha.png'' ''Oferta da semana''
          [contato_exemplo, contato_curto] []) = Normal"
    by auto
  have l: "fst (processarContato amb_rejeita_sem_historia ''Picanha.png'' ''Oferta da semana''
          contato_curto []) = Lancou ''fetch failed''"
    by (simp add: amb_defs norm_defs passo_defs contato_curto_def)
  from processarContato_uma_gravacao_sem_rejeicao [of amb_rejeita_sem_historia "''Picanha.png''"
      "''Oferta da semana''" contato_curto "[]"] l
  have e: "\<exists>h1. snd (processarContato amb_rejeita_sem_historia ''Picanha.png''
                   ''Oferta da semana'' contato_curto []) =
          h1 @ [EvUpdate (contato_id contato_curto) (toISOString amb_rejeita_sem_historia h1)
                  mensagemErro]
        \<and> update_contato amb_rejeita_sem_historia h1 (contato_id contato_curto)
            (toISOString amb_rejeita_sem_historia h1) mensagemErro = Reject ''fetch failed''"
    by auto
  from s1 r1 n1 s2 r2 n2 l e show ?thesis by simp
qed

text \<open>
  Claim C2. When the raw phone string has at least ten digits, the result is exactly two
  candidates in this order: \<open>55\<close>, the two-digit area code and the subscriber digits
  with a leading \<open>9\<close> removed; then the same with the \<open>9\<close> in front. The two differ
  only by that \<open>9\<close>.
\<close>

theorem gerarNumerosAlternativos_dois_candidatos: "10 \<le> length (limpar t) \<Longrightarrow>
   gerarNumerosAlternativos t = candidatos_spec (limpar t) \<and> length (gerarNumerosAlternativos t) = 2"
proof -
  assume "10 \<le> length (limpar t)"
  then have eq: "gerarNumerosAlternativos t = candidatos_spec (limpar t)"
    by (simp add: gerar_longo)
  have "length (candidatos_spec (limpar t)) = 2"
    by (simp add: candidatos_spec_def Let_def)
  with eq show ?thesis by simp
qed

theorem gerarNumerosAlternativos_dois_candidatos_witness:
  "10 \<le> length (limpar ''(11) 98765-4321'')
   \<and> gerarNumerosAlternativos ''(11) 98765-4321'' = [''551187654321'', ''5511987654321'']
   \<and> length (gerarNumerosAlternativos ''(11) 98765-4321'') = 2"
proof -
  have h: "10 \<le> length (limpar ''(11) 98765-4321'')"
    by (simp add: limpar_def digito_def)
  have v: "candidatos_spec (limpar ''(11) 98765-4321'') = [''551187654321'', ''5511987654321'']"
    by (simp add: candidatos_spec_def limpar_def digito_def Let_def)
  from gerarNumerosAlternativos_dois_candidatos [OF h] h v show ?thesis by simp
qed

text \<open>
  Claim C3. When the raw phone string has fewer than ten digits the result is the empty
  list, and processing a contact with that phone makes no call to \<open>getNumberId\<close> or
  \<open>sendMessage\<close>.
\<close>

theorem gerarNumerosAlternativos_curto:
  assumes "length (limpar t) < 10"
  shows "gerarNumerosAlternativos t = []
     \<and> (\<forall>env imagem legenda c h. telefone c = t \<longrightarrow>
          (\<exists>evs. snd (processarContato env imagem legenda c h) = h @ evs
             \<and> filter chamadaEntrega evs = []))"
proof -
  have vazio: "gerarNumerosAlternativos t = []" using assms by (rule gerar_curto)
  have "\<exists>evs. snd (processarContato env imagem legenda c h) = h @ evs
             \<and> filter chamadaEntrega evs = []" if "telefone c = t" for env imagem legenda c h
  proof -
    from that vazio have
      "tentarNumeros env imagem legenda c (gerarNumerosAlternativos (telefone c)) h = (False, h)"
      by simp
    from processar_nao_enviado [OF this refl] show ?thesis
      by (cases "update_contato env h (contato_id c) (toISOString env h) mensagemErro") simp_all
  qed
  with vazio show ?thesis by blast
qed

theorem gerarNumerosAlternativos_curto_witness:
  "length (limpar ''123'') < 10
   \<and> gerarNumerosAlternativos ''123'' = []
   \<and> telefone contato_curto = ''123''
   \<and> (\<exists>evs. snd (processarContato amb_exemplo ''Picanha.png'' ''Oferta da semana'' contato_curto []) = [] @ evs
          \<and> filter chamadaEntrega evs = [])"
proof -
  have h: "length (limpar ''123'') < 10" by (simp add: limpar_def digito_def)
  have t: "telefone contato_curto = ''123''" by (simp add: contato_curto_def)
  from gerarNumerosAlternativos_curto [OF h] h t show ?thesis by blast
qed

text \<open>
  Claim C4. Two candidates; \<open>getNumberId\<close> does not accept the first; the second is
  accepted, \<open>sendMessage\<close> resolves for it, and the store takes the write that records the
  success. Then the events added are exactly: the two validations, one send (to the second
  candidate), one write with the caption as \<open>mensagem\<close>, and the wait.
\<close>

theorem segundo_candidato_enviado:
  assumes "gerarNumerosAlternativos (telefone c) = [n1, n2]"
    and "getNumberId env h n1 \<noteq> Resolve True"
    and "getNumberId env (h @ [EvGetNumberId n1]) n2 = Resolve True"
    and "sendMessage env (h @ [EvGetNumberId n1, EvGetNumberId n2]) (n2 @ ''@c.us'') imagem legenda
           = Resolve u"
    and "h3 = h @ [EvGetNumberId n1, EvGetNumberId n2, EvSendMessage (n2 @ ''@c.us'') imagem legenda]"
    and "update_contato env h3 (contato_id c) (toISOString env h3) legenda = Resolve r"
    and "h4 = h3 @ [EvUpdate (contato_id c) (toISOString env h3) legenda]"
  shows "processarContato env imagem legenda c h =
           (Normal, h4 @ [EvDelay (tempoAleatorio (random env h4))])"
proof -
  have "tentarNumeros env imagem legenda c [n1, n2] h =
        tentarNumeros env imagem legenda c [n2] (h @ [EvGetNumberId n1])"
    using assms(2) by (rule tentar_invalido)
  also have "\<dots> = (True, h4)"
    using tentar_sucesso [OF assms(3), of imagem legenda u h3 c r "[]"] assms(4-7) by simp
  finally show ?thesis using assms(1) processar_enviado [of env imagem legenda c h h4] by simp
qed

theorem segundo_candidato_enviado_witness:
  "gerarNumerosAlternativos (telefone contato_exemplo) = [''551187654321'', ''5511987654321'']
   \<and> getNumberId amb_exemplo [] ''551187654321'' \<noteq> Resolve True
   \<and> getNumberId amb_exemplo [EvGetNumberId ''551187654321''] ''5511987654321'' = Resolve True
   \<and> sendMessage amb_exemplo [EvGetNumberId ''551187654321'', EvGetNumberId ''5511987654321'']
        ''5511987654321@c.us'' ''Picanha.png'' ''Oferta da semana'' = Resolve ()
   \<and> update_contato amb_exemplo
        [EvGetNumberId ''551187654321'', EvGetNumberId ''5511987654321'',
         EvSendMessage ''5511987654321@c.us'' ''Picanha.png'' ''Oferta da semana'']
        7 ''2024-05-01T12:00:00.000Z'' ''Oferta da semana'' = Resolve None
   \<and> processarContato amb_exemplo ''Picanha.png'' ''Oferta da semana'' contato_exemplo [] =
       (Normal,
        [EvGetNumberId ''551187654321'', EvGetNumberId ''5511987654321'',
         EvSendMessage ''5511987654321@c.us'' ''Picanha.png'' ''Oferta da semana'',
         EvUpdate 7 ''2024-05-01T12:00:00.000Z'' ''Oferta da semana'',
         EvDelay 20000])"
proof -
  have a1: "gerarNumerosAlternativos (telefone contato_exemplo) = [''551187654321'', ''5511987654321'']"
    by (simp add: norm_defs contato_exemplo_def)
  have a2: "getNumberId amb_exemplo [] ''551187654321'' \<noteq> Resolve True"
    by (simp add: amb_exemplo_def)
  have a3: "getNumberId amb_exemplo ([] @ [EvGetNumberId ''551187654321'']) ''5511987654321'' = Resolve True"
    by (simp add: amb_exemplo_def)
  have a4: "sendMessage amb_exemplo ([] @ [EvGetNumberId ''551187654321'', EvGetNumberId ''5511987654321''])
        (''5511987654321'' @ ''@c.us'') ''Picanha.png'' ''Oferta da semana'' = Resolve ()"
    by (simp add: amb_exemplo_def)
  have a6: "update_contato amb_exemplo
        ([] @ [EvGetNumberId ''551187654321'', EvGetNumberId ''5511987654321'',
         EvSendMessage (''5511987654321'' @ ''@c.us'') ''Picanha.png'' ''Oferta da semana''])
        (contato_id contato_exemplo)
        (toISOString amb_exemplo ([] @ [EvGetNumberId ''551187654321'', EvGetNumberId ''5511987654321'',
         EvSendMessage (''5511987654321'' @ ''@c.us'') ''Picanha.png'' ''Oferta da semana'']))
        ''Oferta da semana'' = Resolve None"
    by (simp add: amb_exemplo_def)
  from segundo_candidato_enviado [OF a1 a2 a3 a4 refl a6 refl] a1 a2 a3 a4 a6
  show ?thesis by (simp add: amb_exemplo_def contato_exemplo_def tempo_meio)
qed



text \<open>
  Claim C6. When the query resolves to an error the pass consists of the query and a wait
  of 10000 ms; when it resolves to no rows, of the query and a wait of 30000 ms. In both
  cases the next event of the loop is the next query: no write and no call to the
  WhatsApp client lies between.
\<close>

theorem espera_e_consulta_de_novo:
  "(select_pendentes env h = Resolve (Inl erro) \<longrightarrow>
      iteracao env h = (Normal, h @ [EvSelect, EvDelay 10000])
      \<and> (\<exists>evs. snd (loopDeEnvio env (Suc (Suc n)) h) =
                  h @ [EvSelect, EvDelay 10000, EvSelect] @ evs))
   \<and> (select_pendentes env h = Resolve (Inr []) \<longrightarrow>
      iteracao env h = (Normal, h @ [EvSelect, EvDelay 30000])
      \<and> (\<exists>evs. snd (loopDeEnvio env (Suc (Suc n)) h) =
                  h @ [EvSelect, EvDelay 30000, EvSelect] @ evs))"
  using iteracao_erro [of env h erro] iteracao_vazio [of env h]
    loop_apos_espera [of env h 10000 n] loop_apos_espera [of env h 30000 n]
  by blast

theorem espera_e_consulta_de_novo_witness:
  "select_pendentes amb_consulta_erro [] = Resolve (Inl ''timeout'')
   \<and> iteracao amb_consulta_erro [] = (Normal, [] @ [EvSelect, EvDelay 10000])
   \<and> (\<exists>evs. snd (loopDeEnvio amb_consulta_erro (Suc (Suc 0)) []) =
          [] @ [EvSelect, EvDelay 10000, EvSelect] @ evs)
   \<and> select_pendentes amb_exemplo [] = Resolve (Inr [])
   \<and> iteracao amb_exemplo [] = (Normal, [] @ [EvSelect, EvDelay 30000])
   \<and> (\<exists>evs. snd (loopDeEnvio amb_exemplo (Suc (Suc 0)) []) =
          [] @ [EvSelect, EvDelay 30000, EvSelect] @ evs)"
proof -
  have e: "select_pendentes amb_consulta_erro [] = Resolve (Inl ''timeout'')"
    by (simp add: amb_consulta_erro_def amb_exemplo_def)
  have v: "select_pendentes amb_exemplo [] = Resolve (Inr [])"
    by (simp add: amb_exemplo_def)
  from espera_e_consulta_de_novo [of amb_consulta_erro "[]" "''timeout''" 0] espera_e_consulta_de_novo [of amb_exemplo "[]" "''timeout''" 0] e v
  show ?thesis by blast
qed

text \<open>
  Claim C7. For every binary64 value \<open>r\<close> of the random source with \<open>0 \<le> r < 1\<close> the
  computed delay is between 10000 and 30000 ms, bounds included; it is
  \<open>\<lfloor>r * 20001\<rfloor> + 10000\<close>, or one more where the product rounds up to the next integer.
  Whenever the processing of a contact ends normally, with either outcome, its last event
  is that wait.
\<close>

theorem delayAleatorio_intervalo:
  "(binary64 r \<and> 0 \<le> valor r \<and> valor r < 1 \<longrightarrow>
      10000 \<le> tempoAleatorio r \<and> tempoAleatorio r \<le> 30000
      \<and> (tempoAleatorio r = \<lfloor>valor r * (30000 - 10000 + 1)\<rfloor> + 10000
         \<or> tempoAleatorio r = \<lfloor>valor r * (30000 - 10000 + 1)\<rfloor> + 10001))
   \<and> ((\<forall>k. binary64 (random env k) \<and> 0 \<le> valor (random env k) \<and> valor (random env k) < 1)
        \<and> processarContato env imagem legenda c h = (Normal, h') \<longrightarrow>
       (\<exists>h2 ms. h' = h2 @ [EvDelay ms] \<and> ms = tempoAleatorio (random env h2)
          \<and> 10000 \<le> ms \<and> ms \<le> 30000))"
proof -
  have "\<exists>h2 ms. h' = h2 @ [EvDelay ms] \<and> ms = tempoAleatorio (random env h2)
          \<and> 10000 \<le> ms \<and> ms \<le> 30000"
    if fonte: "\<forall>k. binary64 (random env k) \<and> 0 \<le> valor (random env k) \<and> valor (random env k) < 1"
      and p: "processarContato env imagem legenda c h = (Normal, h')"
  proof -
    from processar_termina_em_espera [OF p] obtain h2 where
      h': "h' = h2 @ [EvDelay (tempoAleatorio (random env h2))]" by blast
    from fonte have "binary64 (random env h2)" "valor (random env h2) < 1" by simp_all
    from tempoAleatorio_limites(1,2) [OF this] h' show ?thesis by blast
  qed
  with tempoAleatorio_limites [of r] show ?thesis by blast
qed

theorem delayAleatorio_intervalo_witness:
  "binary64 \<lparr>significando = 4503149289924631, escala = 52\<rparr>
   \<and> 0 \<le> valor \<lparr>significando = 4503149289924631, escala = 52\<rparr>
   \<and> valor \<lparr>significando = 4503149289924631, escala = 52\<rparr> < 1
   \<and> tempoAleatorio \<lparr>significando = 4503149289924631, escala = 52\<rparr> = 29999
   \<and> 10000 \<le> tempoAleatorio \<lparr>significando = 4503149289924631, escala = 52\<rparr>
   \<and> tempoAleatorio \<lparr>significando = 4503149289924631, escala = 52\<rparr> \<le> 30000
   \<and> (\<forall>k. binary64 (random amb_exemplo k) \<and> 0 \<le> valor (random amb_exemplo k)
          \<and> valor (random amb_exemplo k) < 1)
   \<and> processarContato amb_exemplo ''Picanha.png'' ''Oferta da semana'' contato_curto [] =
       (Normal, [EvUpdate 8 ''2024-05-01T12:00:00.000Z'' mensagemErro, EvDelay 20000])
   \<and> (\<exists>h2 ms. [EvUpdate 8 ''2024-05-01T12:00:00.000Z'' mensagemErro, EvDelay 20000] =
          h2 @ [EvDelay ms] \<and> ms = tempoAleatorio (random amb_exemplo h2)
          \<and> 10000 \<le> ms \<and> ms \<le> 30000)"
proof -
  let ?r = "\<lparr>significando = 4503149289924631, escala = 52\<rparr>"
  have b: "binary64 ?r" by (simp add: binary64_def)
  have v: "0 \<le> valor ?r \<and> valor ?r < 1" by (simp add: valor_def)
  have f: "\<forall>k. binary64 (random amb_exemplo k) \<and> 0 \<le> valor (random amb_exemplo k)
          \<and> valor (random amb_exemplo k) < 1"
    by (simp add: amb_exemplo_def binary64_def valor_def)
  have p: "processarContato amb_exemplo ''Picanha.png'' ''Oferta da semana'' contato_curto [] =
       (Normal, [EvUpdate 8 ''2024-05-01T12:00:00.000Z'' mensagemErro, EvDelay 20000])"
    by (simp add: amb_defs norm_defs passo_defs contato_curto_def)
  from delayAleatorio_intervalo [of ?r amb_exemplo "''Picanha.png''" "''Oferta da semana''"
      contato_curto "[]" "[EvUpdate 8 ''2024-05-01T12:00:00.000Z'' mensagemErro, EvDelay 20000]"]
    b v f p tempo_arredonda
  show ?thesis by blast
qed



text \<open>
  Claim C10. Two phone strings with the same digits in the same order give the same
  candidates.
\<close>

theorem gerarNumerosAlternativos_so_digitos:
  "limpar t1 = limpar t2 \<Longrightarrow> gerarNumerosAlternativos t1 = gerarNumerosAlternativos t2"
  by (simp add: gerarNumerosAlternativos_def)

theorem gerarNumerosAlternativos_so_digitos_witness:
  "limpar ''(11) 98765-4321'' = limpar ''+11 9 8765 4321''
   \<and> gerarNumerosAlternativos ''(11) 98765-4321'' = gerarNumerosAlternativos ''+11 9 8765 4321''"
proof -
  have h: "limpar ''(11) 98765-4321'' = limpar ''+11 9 8765 4321''"
    by (simp add: limpar_def digito_def)
  from gerarNumerosAlternativos_so_digitos [OF h] h show ?thesis by simp
qed

end
